theory Spec2Isabelle
  imports Main "HOL-Library.AList" "HOL-Library.Sublist"
begin

section \<open>The persistent knowledge store of \<open>newfile.py\<close> (class \<open>MiniAI\<close>)\<close>

text \<open>
  The embedding follows \<^verbatim>\<open>src/newfile.py\<close>, class \<^verbatim>\<open>MiniAI\<close>. Python dictionaries keep
  their insertion order and \<^verbatim>\<open>recall_memory\<close> prints in that order, so
  \<^verbatim>\<open>long_term_memory\<close> is an association list: \<^verbatim>\<open>d[k]\<close> is \<^const>\<open>map_of\<close>,
  \<^verbatim>\<open>d[k] = v\<close> is \<^const>\<open>AList.update\<close> (in place for a key that is present, at the end for
  a new key), \<^verbatim>\<open>k in d\<close> is membership in the list of keys. Strings are \<^typ>\<open>string\<close>;
  Python's unbounded integers are \<^typ>\<open>int\<close>, and \<^verbatim>\<open>//\<close> is \<open>div\<close> (both round
  towards minus infinity).
\<close>

subsection \<open>Data\<close>

text \<open>
  The dictionary that \<^verbatim>\<open>learn\<close> builds (lines 133-137): it always has the three keys.
\<close>

record entry =
  category :: string
  data :: string
  timestamp :: string

text \<open>
  An element of a category's list in \<^verbatim>\<open>long_term_memory\<close>. The seeded element of the
  blueprint has no \<^verbatim>\<open>category\<close> key (lines 25-28); an element appended by
  \<^verbatim>\<open>sleep_and_save\<close> is the staged dictionary itself, so it has one. The code reads only
  \<^verbatim>\<open>item['data']\<close>.
\<close>

record item =
  item_category :: "string option"
  item_data :: string
  item_timestamp :: string

definition stored :: "entry \<Rightarrow> item" where
  "stored mem =
     \<lparr>item_category = Some (category mem), item_data = data mem, item_timestamp = timestamp mem\<rparr>"

type_synonym memory = "(string \<times> item list) list"

record master =
  name :: string
  access_level :: string
  location :: string

text \<open>
  The document \<^verbatim>\<open>self.attributes\<close>. The keys \<^verbatim>\<open>master_info\<close>, \<^verbatim>\<open>level\<close> and
  \<^verbatim>\<open>intelligence_points\<close> are read without a guard (lines 83, 181, 184, 206), so a
  document has them, with the JSON types of the blueprint; \<^verbatim>\<open>long_term_memory\<close> may be
  absent, which lines 145 and 165-166 provide for.
\<close>

record document =
  master_info :: master
  level :: int
  intelligence_points :: int
  long_term_memory :: "memory option"

text \<open>The object: \<^verbatim>\<open>self.attributes\<close> and \<^verbatim>\<open>self.short_term_memory\<close>.\<close>

record mini_ai =
  attributes :: document
  short_term_memory :: "entry list"

text \<open>\<^verbatim>\<open>DEFAULT_BRAIN_STRUCTURE\<close>, lines 15-31.\<close>

definition DEFAULT_BRAIN_STRUCTURE :: document where
  "DEFAULT_BRAIN_STRUCTURE =
     \<lparr>master_info =
        \<lparr>name = ''Achmed Davids'', access_level = ''Soul Master'',
         location = ''Mitchell's Plain, CP''\<rparr>,
      level = 1,
      intelligence_points = 50,
      long_term_memory = Some
        [(''CORE_DIRECTIVE'',
          [\<lparr>item_category = None,
            item_data = ''I am Mini, the External Brain for Achmed Davids. My goal is to serve as a digital extension of his memory.'',
            item_timestamp = ''2026-01-26''\<rparr>])]\<rparr>"

subsection \<open>The two files\<close>

text \<open>
  \<^verbatim>\<open>json.dump\<close> and \<^verbatim>\<open>json.load\<close> belong to Python's library. A file holds the
  serialisation of a document, or something that \<^verbatim>\<open>json.load\<close> refuses: text that is not
  JSON (\<^verbatim>\<open>JSONDecodeError\<close>), bytes that are not text in the encoding of the platform
  (\<^verbatim>\<open>UnicodeDecodeError\<close>, raised while the file is read), or JSON nested deeper than the
  interpreter's recursion limit (\<^verbatim>\<open>RecursionError\<close>). Serialisation is taken to be
  injective and to round-trip.
\<close>

datatype file_content = Json document | Garbage string | NotText string | TooDeep string

datatype py_error = JSONDecodeError | UnicodeDecodeError | RecursionError

definition json_dump :: "document \<Rightarrow> file_content" where
  "json_dump d = Json d"

fun json_load :: "file_content \<Rightarrow> py_error + document" where
  "json_load (Json d) = Inr d"
| "json_load (Garbage s) = Inl JSONDecodeError"
| "json_load (NotText s) = Inl UnicodeDecodeError"
| "json_load (TooDeep s) = Inl RecursionError"

text \<open>\<^verbatim>\<open>FILENAME\<close> and \<^verbatim>\<open>BACKUP_FILENAME\<close> in the working directory; \<open>None\<close>: no such file.\<close>

record file_system =
  primary :: "file_content option"
  backup :: "file_content option"

subsection \<open>\<open>learn\<close>, lines 132-138\<close>

text \<open>The wall-clock time, already formatted, is the parameter \<open>now\<close>.\<close>

definition learn :: "string \<Rightarrow> string \<Rightarrow> string \<Rightarrow> mini_ai \<Rightarrow> mini_ai" where
  "learn cat knowledge now self =
     self\<lparr>short_term_memory :=
       short_term_memory self @ [\<lparr>category = cat, data = knowledge, timestamp = now\<rparr>]\<rparr>"

subsection \<open>\<open>sleep_and_save\<close>, lines 160-200\<close>

text \<open>
  One iteration of the loop of lines 169-177. After line 172 the key is present, so the
  \<open>None\<close> branch of the lookup (a \<^verbatim>\<open>KeyError\<close> in Python) is never taken.
\<close>

definition merge_one :: "entry \<Rightarrow> memory \<Rightarrow> memory" where
  "merge_one mem ltm =
     (let cat = category mem;
          ltm1 = (if cat \<notin> set (map fst ltm) then AList.update cat [] ltm else ltm)
      in case map_of ltm1 cat of
           None \<Rightarrow> ltm1
         | Some data_list \<Rightarrow>
             (let existing = map item_data data_list
              in if data mem \<notin> set existing
                 then AList.update cat (data_list @ [stored mem]) ltm1
                 else ltm1))"

fun merge_all :: "entry list \<Rightarrow> memory \<Rightarrow> memory" where
  "merge_all [] ltm = ltm"
| "merge_all (mem # rest) ltm = merge_all rest (merge_one mem ltm)"

text \<open>Line 168: the count is taken from the buffer, before the loop.\<close>

definition new_items :: "entry list \<Rightarrow> int" where
  "new_items stm = int (length stm)"

text \<open>Lines 180-186, as a function of the count and the document.\<close>

definition apply_gain :: "int \<Rightarrow> document \<Rightarrow> document" where
  "apply_gain n d =
     (if n > 0 then
        (let d1 = d\<lparr>intelligence_points := intelligence_points d + n * 50\<rparr>;
             cur_xp = intelligence_points d1;
             new_lvl = 1 + cur_xp div 200
         in if new_lvl > level d1 then d1\<lparr>level := new_lvl\<rparr> else d1)
      else d)"

text \<open>
  Lines 192-200. The \<^verbatim>\<open>try\<close> block can fail at the copy (attempted only when the
  primary file exists; the files are then left as they were), when the primary file is
  opened for writing (after the copy), or while \<^verbatim>\<open>json.dump\<close> writes into the truncated
  file, which then holds a part of the text. Which of these happens is decided by the
  environment and is a parameter. The handler prints the error and returns.
\<close>

datatype io_fault = NoFault | CopyFails | OpenFails | DumpFails string

datatype save_report = SavedAndBackedUp | SaveError

definition persist :: "io_fault \<Rightarrow> document \<Rightarrow> file_system \<Rightarrow> file_system \<times> save_report" where
  "persist fault d fs =
     (if primary fs \<noteq> None \<and> fault = CopyFails then (fs, SaveError)
      else
        (let fs1 = (if primary fs \<noteq> None then fs\<lparr>backup := primary fs\<rparr> else fs)
         in case fault of
              OpenFails \<Rightarrow> (fs1, SaveError)
            | DumpFails partial \<Rightarrow> (fs1\<lparr>primary := Some (Garbage partial)\<rparr>, SaveError)
            | _ \<Rightarrow> (fs1\<lparr>primary := Some (json_dump d)\<rparr>, SavedAndBackedUp)))"

definition memory_of :: "document \<Rightarrow> memory" where
  "memory_of d = (case long_term_memory d of None \<Rightarrow> [] | Some ltm \<Rightarrow> ltm)"

definition sleep_and_save ::
  "io_fault \<Rightarrow> mini_ai \<times> file_system \<Rightarrow> (mini_ai \<times> file_system) \<times> save_report" where
  "sleep_and_save fault w =
     (let self = fst w; fs = snd w;
          stm = short_term_memory self;
          d0 = attributes self;
          d1 = d0\<lparr>long_term_memory := Some (merge_all stm (memory_of d0))\<rparr>;
          d2 = apply_gain (new_items stm) d1;
          self' = \<lparr>attributes = d2, short_term_memory = []\<rparr>;
          r = persist fault d2 fs
      in ((self', fst r), snd r))"

subsection \<open>\<open>create_new_brain\<close> and \<open>load_brain\<close>, lines 54-78\<close>

text \<open>
  \<^verbatim>\<open>load_brain\<close> runs once, in the constructor, before anything has changed the
  blueprint, so \<^verbatim>\<open>create_new_brain\<close> writes and returns the blueprint as written in the
  source.
\<close>

definition create_new_brain :: "file_system \<Rightarrow> file_system \<times> (py_error + document)" where
  "create_new_brain fs =
     (fs\<lparr>primary := Some (json_dump DEFAULT_BRAIN_STRUCTURE)\<rparr>, Inr DEFAULT_BRAIN_STRUCTURE)"

text \<open>
  The handler of line 60 catches the \<^verbatim>\<open>JSONDecodeError\<close> of the first \<^verbatim>\<open>json.load\<close>
  only: any other error of it leaves \<^verbatim>\<open>load_brain\<close>. The second \<^verbatim>\<open>json.load\<close> (line 66)
  runs inside the handler: its error leaves \<^verbatim>\<open>load_brain\<close>, after the copy of line 63 has
  been made.
\<close>

definition load_brain :: "file_system \<Rightarrow> file_system \<times> (py_error + document)" where
  "load_brain fs =
     (case primary fs of
        Some c \<Rightarrow>
          (case json_load c of
             Inr d \<Rightarrow> (fs, Inr d)
           | Inl JSONDecodeError \<Rightarrow>
               (case backup fs of
                  Some b \<Rightarrow> (let fs' = fs\<lparr>primary := Some b\<rparr> in (fs', json_load b))
                | None \<Rightarrow> create_new_brain fs)
           | Inl e \<Rightarrow> (fs, Inl e))
      | None \<Rightarrow> create_new_brain fs)"


subsection \<open>\<open>recall_memory\<close>, lines 140-158\<close>

text \<open>
  \<^verbatim>\<open>str.lower\<close> and \<^verbatim>\<open>str.strip\<close> belong to Python's library and follow Unicode: letters
  beyond \<open>A\<close> to \<open>Z\<close> are mapped, a mapping can depend on the neighbouring characters or
  change the length of the text, and white space includes characters beyond ASCII. They are
  the parameters \<open>lower\<close> and \<open>strip\<close> of the model, about which nothing is assumed. A text
  is the list of the bytes of its UTF-8 form, and \<open>py_in q s\<close> is \<^verbatim>\<open>q in s\<close>.
\<close>

fun py_in :: "string \<Rightarrow> string \<Rightarrow> bool" where
  "py_in q [] = (q = [])"
| "py_in q (c # cs) = (take (length q) (c # cs) = q \<or> py_in q cs)"

text \<open>
  What is printed: a line of line 150 (the category matched; it shows the first 100
  characters of the data) or a line of line 155 (the data matched), each for one item of one
  category.
\<close>

datatype hit = CategoryHit string item | ContentHit string item

text \<open>The loops of lines 149-151 and 153-156; the state is the output and \<^verbatim>\<open>found\<close>.\<close>

fun print_all :: "string \<Rightarrow> item list \<Rightarrow> hit list \<times> bool \<Rightarrow> hit list \<times> bool" where
  "print_all cat [] st = st"
| "print_all cat (it # rest) (out, found) = print_all cat rest (out @ [CategoryHit cat it], True)"

fun print_matching ::
  "(string \<Rightarrow> string) \<Rightarrow> string \<Rightarrow> string \<Rightarrow> item list \<Rightarrow> hit list \<times> bool \<Rightarrow>
     hit list \<times> bool" where
  "print_matching lower query cat [] st = st"
| "print_matching lower query cat (it # rest) (out, found) =
     (if py_in query (lower (item_data it))
      then print_matching lower query cat rest (out @ [ContentHit cat it], True)
      else print_matching lower query cat rest (out, found))"

text \<open>The loop of line 147 over \<^verbatim>\<open>memories.items()\<close>.\<close>

fun scan ::
  "(string \<Rightarrow> string) \<Rightarrow> string \<Rightarrow> memory \<Rightarrow> hit list \<times> bool \<Rightarrow> hit list \<times> bool" where
  "scan lower query [] st = st"
| "scan lower query ((cat, data_list) # others) st =
     scan lower query others
       (if py_in query (lower cat) then print_all cat data_list st
        else print_matching lower query cat data_list st)"

text \<open>
  The result is the printed hits and whether line 158 (\<open>Nothing found\<close>) was printed. The
  typed line is the parameter \<open>typed\<close>.
\<close>

definition recall_memory ::
  "(string \<Rightarrow> string) \<Rightarrow> (string \<Rightarrow> string) \<Rightarrow> string \<Rightarrow> mini_ai \<Rightarrow> hit list \<times> bool" where
  "recall_memory lower strip typed self =
     (let query = strip (lower typed);
          memories = memory_of (attributes self);
          r = scan lower query memories ([], False)
      in (fst r, \<not> snd r))"


definition ascii_lower_char :: "char \<Rightarrow> char" where
  "ascii_lower_char c =
     (let n = (of_char c :: nat) in if 65 \<le> n \<and> n \<le> 90 then char_of (n + 32) else c)"

definition ascii_lower :: "string \<Rightarrow> string" where
  "ascii_lower s = map ascii_lower_char s"

definition ascii_space :: "char \<Rightarrow> bool" where
  "ascii_space c =
     (let n = (of_char c :: nat) in (9 \<le> n \<and> n \<le> 13) \<or> (28 \<le> n \<and> n \<le> 32))"

definition ascii_strip :: "string \<Rightarrow> string" where
  "ascii_strip s = rev (dropWhile ascii_space (rev (dropWhile ascii_space s)))"

subsection \<open>Sessions\<close>

text \<open>
  The operations of the store as commands on the object and the two files;
  \<^verbatim>\<open>recall_memory\<close> assigns to nothing.
\<close>

datatype command = Learn string string string | Recall string | Sleep io_fault

fun step :: "command \<Rightarrow> mini_ai \<times> file_system \<Rightarrow> mini_ai \<times> file_system" where
  "step (Learn cat knowledge now) (self, fs) = (learn cat knowledge now self, fs)"
| "step (Recall typed) (self, fs) = (self, fs)"
| "step (Sleep fault) (self, fs) = fst (sleep_and_save fault (self, fs))"

fun run :: "command list \<Rightarrow> mini_ai \<times> file_system \<Rightarrow> mini_ai \<times> file_system" where
  "run [] w = w"
| "run (c # cs) w = run cs (step c w)"



subsection \<open>Notions used in the statements\<close>

text \<open>The list stored under a category, empty when the category is not a key.\<close>

definition old_items :: "memory \<Rightarrow> string \<Rightarrow> item list" where
  "old_items ltm cat = (case map_of ltm cat of None \<Rightarrow> [] | Some data_list \<Rightarrow> data_list)"

text \<open>No two items of one category have the same data.\<close>

definition unique_data :: "memory \<Rightarrow> bool" where
  "unique_data ltm = list_all (\<lambda>(cat, data_list). distinct (map item_data data_list)) ltm"


text \<open>
  \<open>extends old new\<close>: position by position, \<open>new\<close> has the keys of \<open>old\<close> and under each key
  a list that starts with the old one; \<open>new\<close> may have further keys after them.
\<close>

fun extends :: "memory \<Rightarrow> memory \<Rightarrow> bool" where
  "extends [] new = True"
| "extends ((cat, data_list) # old) [] = False"
| "extends ((cat, data_list) # old) ((cat', data_list') # new) =
     (cat = cat' \<and> prefix data_list data_list' \<and> extends old new)"

text \<open>The level is the one that the points give.\<close>

definition level_ok :: "document \<Rightarrow> bool" where
  "level_ok d = (level d = 1 + intelligence_points d div 200)"


text \<open>
  The hits expected of one category for a query, in the words of the matching rule: every
  item when the query occurs in the lower-cased name of the category, otherwise the items
  whose lower-cased data contains the query.
\<close>

definition expected_hits ::
  "(string \<Rightarrow> string) \<Rightarrow> string \<Rightarrow> string \<times> item list \<Rightarrow> hit list" where
  "expected_hits lower query p =
     (if py_in query (lower (fst p)) then map (CategoryHit (fst p)) (snd p)
      else map (ContentHit (fst p)) (filter (\<lambda>it. py_in query (lower (item_data it))) (snd p)))"


text \<open>The category and item that a printed line is about, and all items of a memory in order.\<close>

fun reported :: "hit \<Rightarrow> string \<times> item" where
  "reported (CategoryHit cat it) = (cat, it)"
| "reported (ContentHit cat it) = (cat, it)"

definition all_items :: "memory \<Rightarrow> (string \<times> item) list" where
  "all_items ltm = concat (map (\<lambda>p. map (Pair (fst p)) (snd p)) ltm)"

text \<open>An object with the two categories of the recall example.\<close>

definition example_brain :: mini_ai where
  "example_brain =
     \<lparr>attributes =
        \<lparr>master_info = master_info DEFAULT_BRAIN_STRUCTURE, level = 1, intelligence_points = 100,
         long_term_memory = Some
           [(''ENGINE'', [\<lparr>item_category = Some ''ENGINE'',
                          item_data = ''IGBT driver uses TC4420CPA'',
                          item_timestamp = ''2026-02-01 10:00:00''\<rparr>]),
            (''LEGAL'', [\<lparr>item_category = Some ''LEGAL'',
                         item_data = ''Case filed 2024'',
                         item_timestamp = ''2026-02-01 10:05:00''\<rparr>])]\<rparr>,
      short_term_memory = []\<rparr>"

section \<open>Properties\<close>

subsection \<open>Auxiliary facts\<close>

lemma DEFAULT_fields:
  "level DEFAULT_BRAIN_STRUCTURE = 1"
  "intelligence_points DEFAULT_BRAIN_STRUCTURE = 50"
  by (simp_all add: DEFAULT_BRAIN_STRUCTURE_def)

lemma points_apply_gain:
  "intelligence_points (apply_gain n d) =
     (if n > 0 then intelligence_points d + n * 50 else intelligence_points d)"
  by (simp add: apply_gain_def Let_def)

lemma persist_report:
  "snd (persist fault d fs) = SaveError \<longleftrightarrow>
     fault \<noteq> NoFault \<and> \<not> (fault = CopyFails \<and> primary fs = None)"
  by (cases fault) (simp_all add: persist_def Let_def)

lemma apply_gain_frame:
  "master_info (apply_gain n d) = master_info d"
  "long_term_memory (apply_gain n d) = long_term_memory d"
  "memory_of (apply_gain n d) = memory_of d"
  by (simp_all add: apply_gain_def Let_def memory_of_def)

lemma apply_gain_pos:
  "0 < n \<Longrightarrow> apply_gain n d =
     d\<lparr>level := max (level d) (1 + (intelligence_points d + n * 50) div 200),
       intelligence_points := intelligence_points d + n * 50\<rparr>"
  by (simp add: apply_gain_def Let_def max_def)

lemma apply_gain_zero: "n \<le> 0 \<Longrightarrow> apply_gain n d = d"
  by (simp add: apply_gain_def)

lemma level_apply_gain_mono: "level d \<le> level (apply_gain n d)"
  by (simp add: apply_gain_def Let_def)

lemma level_apply_gain_cases:
  "level (apply_gain n d) = level d \<or>
   (level d < level (apply_gain n d) \<and>
    level (apply_gain n d) = 1 + intelligence_points (apply_gain n d) div 200)"
  by (simp add: apply_gain_def Let_def)

lemma level_ok_apply_gain: "0 \<le> n \<Longrightarrow> level_ok d \<Longrightarrow> level_ok (apply_gain n d)"
proof -
  assume n: "0 \<le> n" and ok: "level_ok d"
  have "intelligence_points d div 200 \<le> (intelligence_points d + n * 50) div 200"
    using n by (intro zdiv_mono1) auto
  then show ?thesis
    using ok by (auto simp: level_ok_def apply_gain_def Let_def)
qed

lemma level_ok_fold:
  "\<forall>n\<in>set ns. 0 \<le> n \<Longrightarrow> level_ok d \<Longrightarrow> level_ok (fold apply_gain ns d)"
  by (induction ns arbitrary: d) (auto simp: level_ok_apply_gain)

lemma level_ok_DEFAULT: "level_ok DEFAULT_BRAIN_STRUCTURE"
  by (simp add: level_ok_def DEFAULT_fields)

text \<open>The paths of \<^const>\<open>load_brain\<close> that return a document.\<close>

lemma load_brain_parses:
  "primary fs = Some (Json d) \<Longrightarrow> load_brain fs = (fs, Inr d)"
  by (simp add: load_brain_def)

lemma load_brain_restores:
  "primary fs = Some (Garbage p) \<Longrightarrow> backup fs = Some (Json d) \<Longrightarrow>
     load_brain fs = (fs\<lparr>primary := Some (Json d)\<rparr>, Inr d)"
  by (simp add: load_brain_def)

lemma load_brain_no_backup:
  "primary fs = Some (Garbage p) \<Longrightarrow> backup fs = None \<Longrightarrow>
     load_brain fs = create_new_brain fs"
  by (simp add: load_brain_def)

lemma load_brain_missing:
  "primary fs = None \<Longrightarrow> load_brain fs = create_new_brain fs"
  by (simp add: load_brain_def)

text \<open>An error of the first \<^verbatim>\<open>json.load\<close> other than \<^verbatim>\<open>JSONDecodeError\<close> is not caught.\<close>

lemma load_brain_uncaught:
  "primary fs = Some (NotText s) \<Longrightarrow> load_brain fs = (fs, Inl UnicodeDecodeError)"
  "primary fs = Some (TooDeep s) \<Longrightarrow> load_brain fs = (fs, Inl RecursionError)"
  by (simp_all add: load_brain_def)

subsection \<open>The merge loop\<close>

lemma map_of_absent: "k \<notin> fst ` set al \<Longrightarrow> map_of al k = None"
  by (simp add: map_of_eq_None_iff)

lemma map_of_merge_one:
  "map_of (merge_one mem ltm) c =
     (if c = category mem
      then Some (if data mem \<in> set (map item_data (old_items ltm c)) then old_items ltm c
                 else old_items ltm c @ [stored mem])
      else map_of ltm c)"
  by (auto simp: merge_one_def Let_def old_items_def update_conv' map_of_absent
      split: option.splits dest: weak_map_of_SomeI)

lemma keys_merge_one:
  "map fst (merge_one mem ltm) =
     (if category mem \<in> set (map fst ltm) then map fst ltm else map fst ltm @ [category mem])"
  by (auto simp: merge_one_def Let_def update_keys update_conv' split: option.splits)

lemma extends_refl: "extends ltm ltm"
  by (induction ltm) auto

lemma extends_trans: "extends a b \<Longrightarrow> extends b c \<Longrightarrow> extends a c"
  by (induction a b arbitrary: c rule: extends.induct) (case_tac c; auto)+

lemma extends_update_new: "k \<notin> set (map fst al) \<Longrightarrow> extends al (AList.update k v al)"
  by (induction al) auto

lemma extends_update_old:
  "map_of al k = Some l \<Longrightarrow> extends al (AList.update k (l @ x) al)"
  by (induction al) (auto simp: extends_refl)

lemma extends_merge_one: "extends ltm (merge_one mem ltm)"
  by (auto simp: merge_one_def Let_def update_conv' extends_refl extends_update_new
      split: option.splits
      intro: extends_trans [OF extends_update_new extends_update_old] extends_update_old)

lemma extends_merge_all: "extends ltm (merge_all stm ltm)"
  by (induction stm arbitrary: ltm) (auto intro: extends_refl extends_trans extends_merge_one)

lemma extends_keys: "extends old new \<Longrightarrow> prefix (map fst old) (map fst new)"
  by (induction old new rule: extends.induct) auto

lemma extends_lookup:
  "extends old new \<Longrightarrow> map_of old c = Some l \<Longrightarrow> \<exists>l'. map_of new c = Some (l @ l')"
  by (induction old new rule: extends.induct) (auto simp: prefix_def split: if_splits)

lemma unique_data_update:
  "unique_data al \<Longrightarrow> distinct (map item_data v) \<Longrightarrow> unique_data (AList.update k v al)"
  by (induction al) (auto simp: unique_data_def)

lemma unique_data_lookup:
  "unique_data al \<Longrightarrow> map_of al k = Some l \<Longrightarrow> distinct (map item_data l)"
  by (induction al) (auto simp: unique_data_def split: if_splits)

lemma unique_data_merge_one: "unique_data ltm \<Longrightarrow> unique_data (merge_one mem ltm)"
  by (auto simp: merge_one_def Let_def update_conv' stored_def split: option.splits
      intro!: unique_data_update dest: unique_data_lookup)

lemma unique_data_merge_all: "unique_data ltm \<Longrightarrow> unique_data (merge_all stm ltm)"
  by (induction stm arbitrary: ltm) (auto simp: unique_data_merge_one)




lemma merge_one_duplicate:
  "data mem \<in> set (map item_data (old_items ltm (category mem))) \<Longrightarrow> merge_one mem ltm = ltm"
  by (auto simp: merge_one_def Let_def old_items_def map_of_absent split: option.splits)

lemma merge_all_fold: "merge_all stm ltm = fold merge_one stm ltm"
  by (induction stm arbitrary: ltm) auto

lemma memory_of_update: "memory_of (d\<lparr>long_term_memory := Some m\<rparr>) = m"
  by (simp add: memory_of_def)

lemma memory_after_save:
  "memory_of (attributes (fst (fst (sleep_and_save fault (self, fs))))) =
     merge_all (short_term_memory self) (memory_of (attributes self))"
  by (simp add: sleep_and_save_def Let_def apply_gain_frame memory_of_update)

lemma unique_data_DEFAULT: "unique_data (memory_of DEFAULT_BRAIN_STRUCTURE)"
  by (simp add: unique_data_def memory_of_def DEFAULT_BRAIN_STRUCTURE_def)







lemma master_after_save:
  "master_info (attributes (fst (fst (sleep_and_save fault (self, fs))))) =
     master_info (attributes self)"
  by (simp add: sleep_and_save_def Let_def apply_gain_frame)

lemma step_frame:
  "master_info (attributes (fst (step c w))) = master_info (attributes (fst w)) \<and>
   extends (memory_of (attributes (fst w))) (memory_of (attributes (fst (step c w))))"
proof (cases w)
  case (Pair self fs)
  then show ?thesis
    by (cases c)
      (simp_all add: learn_def extends_refl master_after_save memory_after_save extends_merge_all)
qed

lemma run_frame:
  "master_info (attributes (fst (run cs w))) = master_info (attributes (fst w)) \<and>
   extends (memory_of (attributes (fst w))) (memory_of (attributes (fst (run cs w))))"
proof (induction cs arbitrary: w)
  case Nil
  show ?case by (simp add: extends_refl)
next
  case (Cons c cs)
  from Cons [of "step c w"] step_frame [of c w] show ?case
    by (auto intro: extends_trans)
qed

subsection \<open>The files through a session\<close>










subsection \<open>The recall loops\<close>


lemma py_in_empty: "py_in [] s"
  by (cases s) auto

lemma print_all_eq:
  "print_all cat items (out, found) = (out @ map (CategoryHit cat) items, found \<or> items \<noteq> [])"
  by (induction items arbitrary: out found) auto

lemma print_matching_eq:
  "print_matching lower query cat items (out, found) =
     (out @ map (ContentHit cat) (filter (\<lambda>it. py_in query (lower (item_data it))) items),
      found \<or> filter (\<lambda>it. py_in query (lower (item_data it))) items \<noteq> [])"
  by (induction items arbitrary: out found) auto

lemma scan_eq:
  "scan lower query ltm (out, found) =
     (out @ concat (map (expected_hits lower query) ltm),
      found \<or> concat (map (expected_hits lower query) ltm) \<noteq> [])"
proof (induction ltm arbitrary: out found)
  case Nil
  show ?case by simp
next
  case (Cons p ltm)
  obtain cat data_list where p: "p = (cat, data_list)" by (cases p)
  show ?case
    unfolding p by (auto simp: Cons.IH print_all_eq print_matching_eq expected_hits_def)
qed

lemma recall_memory_eq:
  "recall_memory lower strip typed self =
     (concat (map (expected_hits lower (strip (lower typed))) (memory_of (attributes self))),
      concat (map (expected_hits lower (strip (lower typed))) (memory_of (attributes self))) = [])"
  by (simp add: recall_memory_def Let_def scan_eq)

lemma reported_comp:
  "reported \<circ> CategoryHit c = Pair c" "reported \<circ> ContentHit c = Pair c"
  by (simp_all add: fun_eq_iff)



lemma expected_hits_blank:
  "expected_hits lower [] = (\<lambda>p. map (CategoryHit (fst p)) (snd p))"
  by (simp add: fun_eq_iff expected_hits_def py_in_empty)

lemma reported_category_hits:
  "map reported (concat (map (\<lambda>p. map (CategoryHit (fst p)) (snd p)) ltm)) = all_items ltm"
  by (induction ltm) (simp_all add: all_items_def reported_comp)









subsection \<open>Loading when both files are unreadable\<close>

text \<open>
  Claim C4. \<^verbatim>\<open>load\<close> returns the primary file's document when it parses, restores the
  backup when the primary does not parse, and never raises: with both files unparseable, or
  the backup missing, it falls back to the blueprint. The first two paths and the missing
  backup are \<open>load_brain_parses\<close>, \<open>load_brain_restores\<close> and \<open>load_brain_no_backup\<close>.
  With a primary file and a backup file that both fail to parse, the code copies the backup
  over the primary and the second \<^verbatim>\<open>json.load\<close> raises \<^verbatim>\<open>JSONDecodeError\<close> out of
  \<^verbatim>\<open>load_brain\<close>: nothing is created from the blueprint. (A primary file that is not
  text, or is nested too deep, raises as well: \<open>load_brain_uncaught\<close>.)
\<close>

theorem load_brain_corrupt_backup_raises:
  "load_brain \<lparr>primary = Some (Garbage p), backup = Some (Garbage b)\<rparr> =
     (\<lparr>primary = Some (Garbage b), backup = Some (Garbage b)\<rparr>, Inl JSONDecodeError)"
  by (simp add: load_brain_def)

theorem load_brain_corrupt_backup_raises_witness:
  "snd (load_brain \<lparr>primary = Some (Garbage ''{''), backup = Some (Garbage ''[1,'')\<rparr>) =
     Inl JSONDecodeError"
  using load_brain_corrupt_backup_raises [of "''{''" "''[1,''"] by simp

subsection \<open>The first run\<close>

text \<open>
  Claim C6. In a working directory with no primary file, \<^verbatim>\<open>load_brain\<close> writes the
  blueprint as the primary file and returns it, whatever else the directory holds; the
  blueprint is one fixed document (the fixed profile, level 1, 50 points, one category with
  one item dated 2026-01-26), so two runs in two such directories return the same document
  and write the same file.
\<close>

theorem bootstrap_deterministic:
  assumes "primary fs = None" and "primary fs' = None"
  shows "load_brain fs = (fs\<lparr>primary := Some (json_dump DEFAULT_BRAIN_STRUCTURE)\<rparr>,
                          Inr DEFAULT_BRAIN_STRUCTURE)
    \<and> snd (load_brain fs) = snd (load_brain fs')
    \<and> primary (fst (load_brain fs)) = primary (fst (load_brain fs'))
    \<and> json_load (json_dump DEFAULT_BRAIN_STRUCTURE) = Inr DEFAULT_BRAIN_STRUCTURE
    \<and> level DEFAULT_BRAIN_STRUCTURE = 1
    \<and> intelligence_points DEFAULT_BRAIN_STRUCTURE = 50
    \<and> master_info DEFAULT_BRAIN_STRUCTURE =
           \<lparr>name = ''Achmed Davids'', access_level = ''Soul Master'',
            location = ''Mitchell's Plain, CP''\<rparr>
    \<and> (\<exists>it. long_term_memory DEFAULT_BRAIN_STRUCTURE = Some [(''CORE_DIRECTIVE'', [it])]
           \<and> item_timestamp it = ''2026-01-26'')"
  using assms
  by (simp add: load_brain_def create_new_brain_def json_dump_def DEFAULT_BRAIN_STRUCTURE_def)

theorem bootstrap_deterministic_witness:
  "load_brain \<lparr>primary = None, backup = None\<rparr> =
     (\<lparr>primary = Some (Json DEFAULT_BRAIN_STRUCTURE), backup = None\<rparr>, Inr DEFAULT_BRAIN_STRUCTURE)
   \<and> snd (load_brain \<lparr>primary = None, backup = None\<rparr>) =
       snd (load_brain \<lparr>primary = None, backup = Some (Garbage ''x'')\<rparr>)"
  using bootstrap_deterministic [of "\<lparr>primary = None, backup = None\<rparr>"
      "\<lparr>primary = None, backup = Some (Garbage ''x'')\<rparr>"]
  by (simp add: json_dump_def load_brain_def create_new_brain_def)

subsection \<open>The buffer after a save\<close>

text \<open>
  Claim C8. After \<^verbatim>\<open>sleep_and_save\<close> the buffer is empty whether or not the files could
  be written; the document in memory is the merged one in either case, the same as after a
  save without a fault; a fault of the copy or of the write is reported (the error line is
  printed) and nothing is raised; and neither \<^verbatim>\<open>learn\<close> nor \<^verbatim>\<open>recall_memory\<close> changes
  the document afterwards.
\<close>

theorem sleep_and_save_drains_buffer:
  "short_term_memory (fst (fst (sleep_and_save fault (self, fs)))) = []
   \<and> attributes (fst (fst (sleep_and_save fault (self, fs)))) =
       apply_gain (new_items (short_term_memory self))
         ((attributes self)\<lparr>long_term_memory :=
            Some (merge_all (short_term_memory self) (memory_of (attributes self)))\<rparr>)
   \<and> fst (fst (sleep_and_save fault (self, fs))) = fst (fst (sleep_and_save NoFault (self, fs)))
   \<and> (snd (sleep_and_save fault (self, fs)) = SaveError \<longleftrightarrow>
        fault \<noteq> NoFault \<and> \<not> (fault = CopyFails \<and> primary fs = None))
   \<and> attributes (fst (step (Learn cat knowledge now) (self', fs'))) = attributes self'
   \<and> attributes (fst (step (Recall typed) (self', fs'))) = attributes self'"
  by (simp add: sleep_and_save_def Let_def persist_report learn_def)

theorem sleep_and_save_drains_buffer_witness:
  "short_term_memory (fst (fst (sleep_and_save OpenFails
      (\<lparr>attributes = DEFAULT_BRAIN_STRUCTURE,
        short_term_memory = [\<lparr>category = ''ENGINE'', data = ''IGBT'', timestamp = ''t''\<rparr>]\<rparr>,
       \<lparr>primary = Some (Json DEFAULT_BRAIN_STRUCTURE), backup = None\<rparr>)))) = []
   \<and> intelligence_points (attributes (fst (fst (sleep_and_save OpenFails
      (\<lparr>attributes = DEFAULT_BRAIN_STRUCTURE,
        short_term_memory = [\<lparr>category = ''ENGINE'', data = ''IGBT'', timestamp = ''t''\<rparr>]\<rparr>,
       \<lparr>primary = Some (Json DEFAULT_BRAIN_STRUCTURE), backup = None\<rparr>))))) = 100
   \<and> snd (sleep_and_save OpenFails
      (\<lparr>attributes = DEFAULT_BRAIN_STRUCTURE,
        short_term_memory = [\<lparr>category = ''ENGINE'', data = ''IGBT'', timestamp = ''t''\<rparr>]\<rparr>,
       \<lparr>primary = Some (Json DEFAULT_BRAIN_STRUCTURE), backup = None\<rparr>)) = SaveError"
proof -
  note t = sleep_and_save_drains_buffer [of OpenFails
      "\<lparr>attributes = DEFAULT_BRAIN_STRUCTURE,
        short_term_memory = [\<lparr>category = ''ENGINE'', data = ''IGBT'', timestamp = ''t''\<rparr>]\<rparr>"
      "\<lparr>primary = Some (Json DEFAULT_BRAIN_STRUCTURE), backup = None\<rparr>"]
  note drained = t [THEN conjunct1]
  note doc = t [THEN conjunct2, THEN conjunct1]
  note report = t [THEN conjunct2, THEN conjunct2, THEN conjunct2, THEN conjunct1]
  show ?thesis
    by (simp add: drained doc report points_apply_gain new_items_def DEFAULT_fields)
qed

subsection \<open>Points and level\<close>

text \<open>
  Claim C3. The gain of lines 180-186 is a function of the count and the document: for a
  positive count it adds 50 points per counted fact and raises the level to
  \<open>1 + points div 200\<close> when that is more than the level; for the count 0 the guard of
  line 180 leaves the document as it is, which adds 0 points. The level changes only to
  that value and only upwards. For every list of non-negative counts applied to the
  blueprint, the level is \<open>1 + points div 200\<close> after every call and never decreases.
\<close>

theorem apply_gain_levels:
  "(0 < n \<longrightarrow> apply_gain n d =
      d\<lparr>level := max (level d) (1 + (intelligence_points d + n * 50) div 200),
        intelligence_points := intelligence_points d + n * 50\<rparr>)
   \<and> (n = 0 \<longrightarrow> apply_gain n d = d)
   \<and> (0 \<le> n \<longrightarrow> intelligence_points (apply_gain n d) = intelligence_points d + n * 50)
   \<and> (level (apply_gain n d) = level d \<or>
       (level d < level (apply_gain n d) \<and>
        level (apply_gain n d) = 1 + intelligence_points (apply_gain n d) div 200))
   \<and> level d \<le> level (apply_gain n d)
   \<and> ((\<forall>m\<in>set ns. 0 \<le> m) \<and> 0 \<le> n \<longrightarrow>
        level (fold apply_gain ns DEFAULT_BRAIN_STRUCTURE) =
          1 + intelligence_points (fold apply_gain ns DEFAULT_BRAIN_STRUCTURE) div 200
        \<and> level (fold apply_gain ns DEFAULT_BRAIN_STRUCTURE) \<le>
            level (apply_gain n (fold apply_gain ns DEFAULT_BRAIN_STRUCTURE))
        \<and> level (apply_gain n (fold apply_gain ns DEFAULT_BRAIN_STRUCTURE)) =
            1 + intelligence_points (apply_gain n (fold apply_gain ns DEFAULT_BRAIN_STRUCTURE))
                  div 200)"
proof -
  have reach: "level_ok (fold apply_gain ns DEFAULT_BRAIN_STRUCTURE)"
    if "\<forall>m\<in>set ns. 0 \<le> m"
    using that by (simp add: level_ok_fold level_ok_DEFAULT)
  have a: "0 < n \<longrightarrow> apply_gain n d =
      d\<lparr>level := max (level d) (1 + (intelligence_points d + n * 50) div 200),
        intelligence_points := intelligence_points d + n * 50\<rparr>"
    by (simp add: apply_gain_pos)
  have b: "n = 0 \<longrightarrow> apply_gain n d = d"
    by (simp add: apply_gain_zero)
  have c: "0 \<le> n \<longrightarrow> intelligence_points (apply_gain n d) = intelligence_points d + n * 50"
    by (simp add: points_apply_gain)
  have e: "(\<forall>m\<in>set ns. 0 \<le> m) \<and> 0 \<le> n \<longrightarrow>
        level (fold apply_gain ns DEFAULT_BRAIN_STRUCTURE) =
          1 + intelligence_points (fold apply_gain ns DEFAULT_BRAIN_STRUCTURE) div 200
        \<and> level (fold apply_gain ns DEFAULT_BRAIN_STRUCTURE) \<le>
            level (apply_gain n (fold apply_gain ns DEFAULT_BRAIN_STRUCTURE))
        \<and> level (apply_gain n (fold apply_gain ns DEFAULT_BRAIN_STRUCTURE)) =
            1 + intelligence_points (apply_gain n (fold apply_gain ns DEFAULT_BRAIN_STRUCTURE))
                  div 200"
    using reach level_ok_apply_gain [of n "fold apply_gain ns DEFAULT_BRAIN_STRUCTURE"]
      level_apply_gain_mono [of "fold apply_gain ns DEFAULT_BRAIN_STRUCTURE" n]
    by (auto simp: level_ok_def)
  from a b c level_apply_gain_cases [of n d] level_apply_gain_mono [of d n] e
  show ?thesis by blast
qed

theorem apply_gain_levels_witness:
  "level (fold apply_gain [1, 0, 2] DEFAULT_BRAIN_STRUCTURE) = 2
   \<and> intelligence_points (fold apply_gain [1, 0, 2] DEFAULT_BRAIN_STRUCTURE) = 200
   \<and> level (apply_gain 4 (fold apply_gain [1, 0, 2] DEFAULT_BRAIN_STRUCTURE)) = 3
   \<and> level (fold apply_gain [1, 0, 2] DEFAULT_BRAIN_STRUCTURE) \<le>
       level (apply_gain 4 (fold apply_gain [1, 0, 2] DEFAULT_BRAIN_STRUCTURE))
   \<and> apply_gain 0 DEFAULT_BRAIN_STRUCTURE = DEFAULT_BRAIN_STRUCTURE
   \<and> level (apply_gain 4 DEFAULT_BRAIN_STRUCTURE) = 2
   \<and> intelligence_points (apply_gain 4 DEFAULT_BRAIN_STRUCTURE) = 250"
proof -
  have h: "(\<forall>m\<in>set [1, 0, 2 :: int]. 0 \<le> m) \<and> (0::int) \<le> 4" by simp
  note t = apply_gain_levels [of 4 "fold apply_gain [1, 0, 2] DEFAULT_BRAIN_STRUCTURE" "[1, 0, 2]"]
  note inv = t [THEN conjunct2, THEN conjunct2, THEN conjunct2, THEN conjunct2, THEN conjunct2,
      THEN mp, OF h]
  have p: "intelligence_points (fold apply_gain [1, 0, 2] DEFAULT_BRAIN_STRUCTURE) = 200"
    by (simp add: points_apply_gain DEFAULT_fields)
  have q: "intelligence_points (apply_gain 4 (fold apply_gain [1, 0, 2] DEFAULT_BRAIN_STRUCTURE)) = 400"
    by (simp add: points_apply_gain DEFAULT_fields)
  note z = apply_gain_levels [of 0 DEFAULT_BRAIN_STRUCTURE "[]"]
  note zero = z [THEN conjunct2, THEN conjunct1, THEN mp, OF refl]
  have pos: "(0::int) < 4" and nonneg: "(0::int) \<le> 4" by simp_all
  note g = apply_gain_levels [of 4 DEFAULT_BRAIN_STRUCTURE "[]"]
  note gain = g [THEN conjunct1, THEN mp, OF pos]
  note pts = g [THEN conjunct2, THEN conjunct2, THEN conjunct1, THEN mp, OF nonneg]
  have lvl: "level (apply_gain 4 DEFAULT_BRAIN_STRUCTURE) = 2"
    unfolding gain by (simp add: DEFAULT_fields)
  have pts': "intelligence_points (apply_gain 4 DEFAULT_BRAIN_STRUCTURE) = 250"
    unfolding pts by (simp add: DEFAULT_fields)
  from inv p q zero lvl pts' show ?thesis by simp
qed

subsection \<open>Merging without duplicates\<close>

text \<open>
  Claim C2. The staged entries are merged in the order of their arrival. One entry is
  appended at the end of the list of its category (a new category is added, empty, after
  the other keys) exactly when no item of that list has the same data; otherwise the memory
  is left as it was; the lists of the other categories are not touched. So a memory in
  which no two items of one category have the same data stays so through every save, and
  the blueprint is such a memory.
\<close>

theorem merge_dedup:
  "map_of (merge_one mem ltm) (category mem) =
     Some (if data mem \<in> set (map item_data (old_items ltm (category mem)))
           then old_items ltm (category mem)
           else old_items ltm (category mem) @ [stored mem])
   \<and> (\<forall>c. c \<noteq> category mem \<longrightarrow> map_of (merge_one mem ltm) c = map_of ltm c)
   \<and> map fst (merge_one mem ltm) =
       (if category mem \<in> set (map fst ltm) then map fst ltm else map fst ltm @ [category mem])
   \<and> (data mem \<in> set (map item_data (old_items ltm (category mem))) \<longrightarrow>
        merge_one mem ltm = ltm)
   \<and> merge_all stm ltm = fold merge_one stm ltm
   \<and> memory_of (attributes (fst (fst (sleep_and_save fault (self, fs))))) =
       merge_all (short_term_memory self) (memory_of (attributes self))
   \<and> (unique_data ltm \<longrightarrow> unique_data (merge_all stm ltm))
   \<and> (unique_data (memory_of (attributes self)) \<longrightarrow>
        unique_data (memory_of (attributes (fst (fst (sleep_and_save fault (self, fs)))))))
   \<and> unique_data (memory_of DEFAULT_BRAIN_STRUCTURE)"
  by (simp add: map_of_merge_one keys_merge_one merge_one_duplicate merge_all_fold [symmetric]
      memory_after_save unique_data_merge_all unique_data_DEFAULT)

theorem merge_dedup_witness:
  "unique_data [(''A'', [\<lparr>item_category = None, item_data = ''x'', item_timestamp = ''t0''\<rparr>])]
   \<and> merge_all
        [\<lparr>category = ''A'', data = ''x'', timestamp = ''t1''\<rparr>,
         \<lparr>category = ''A'', data = ''y'', timestamp = ''t2''\<rparr>,
         \<lparr>category = ''B'', data = ''x'', timestamp = ''t3''\<rparr>,
         \<lparr>category = ''A'', data = ''y'', timestamp = ''t4''\<rparr>]
        [(''A'', [\<lparr>item_category = None, item_data = ''x'', item_timestamp = ''t0''\<rparr>])] =
       [(''A'', [\<lparr>item_category = None, item_data = ''x'', item_timestamp = ''t0''\<rparr>,
                \<lparr>item_category = Some ''A'', item_data = ''y'', item_timestamp = ''t2''\<rparr>]),
        (''B'', [\<lparr>item_category = Some ''B'', item_data = ''x'', item_timestamp = ''t3''\<rparr>])]
   \<and> unique_data (merge_all
        [\<lparr>category = ''A'', data = ''x'', timestamp = ''t1''\<rparr>,
         \<lparr>category = ''A'', data = ''y'', timestamp = ''t2''\<rparr>,
         \<lparr>category = ''B'', data = ''x'', timestamp = ''t3''\<rparr>,
         \<lparr>category = ''A'', data = ''y'', timestamp = ''t4''\<rparr>]
        [(''A'', [\<lparr>item_category = None, item_data = ''x'', item_timestamp = ''t0''\<rparr>])])
   \<and> merge_one \<lparr>category = ''A'', data = ''x'', timestamp = ''t1''\<rparr>
        [(''A'', [\<lparr>item_category = None, item_data = ''x'', item_timestamp = ''t0''\<rparr>])] =
       [(''A'', [\<lparr>item_category = None, item_data = ''x'', item_timestamp = ''t0''\<rparr>])]
   \<and> map_of (merge_one \<lparr>category = ''A'', data = ''x'', timestamp = ''t1''\<rparr>
        [(''A'', [\<lparr>item_category = None, item_data = ''x'', item_timestamp = ''t0''\<rparr>])]) ''B'' =
       None
   \<and> unique_data (memory_of (attributes (fst (fst (sleep_and_save NoFault
        (\<lparr>attributes = DEFAULT_BRAIN_STRUCTURE,
          short_term_memory = [\<lparr>category = ''A'', data = ''x'', timestamp = ''t1''\<rparr>]\<rparr>,
         \<lparr>primary = None, backup = None\<rparr>))))))"
proof -
  let ?ltm = "[(''A'', [\<lparr>item_category = None, item_data = ''x'', item_timestamp = ''t0''\<rparr>])]"
  let ?stm = "[\<lparr>category = ''A'', data = ''x'', timestamp = ''t1''\<rparr>,
         \<lparr>category = ''A'', data = ''y'', timestamp = ''t2''\<rparr>,
         \<lparr>category = ''B'', data = ''x'', timestamp = ''t3''\<rparr>,
         \<lparr>category = ''A'', data = ''y'', timestamp = ''t4''\<rparr>]"
  let ?mem = "\<lparr>category = ''A'', data = ''x'', timestamp = ''t1''\<rparr>"
  let ?self = "\<lparr>attributes = DEFAULT_BRAIN_STRUCTURE, short_term_memory = [?mem]\<rparr>"
  have u: "unique_data ?ltm"
    by (simp add: unique_data_def)
  have m: "merge_all ?stm ?ltm =
       [(''A'', [\<lparr>item_category = None, item_data = ''x'', item_timestamp = ''t0''\<rparr>,
                \<lparr>item_category = Some ''A'', item_data = ''y'', item_timestamp = ''t2''\<rparr>]),
        (''B'', [\<lparr>item_category = Some ''B'', item_data = ''x'', item_timestamp = ''t3''\<rparr>])]"
    by (simp add: merge_one_def Let_def stored_def)
  note t = merge_dedup [of ?mem ?ltm ?stm NoFault ?self "\<lparr>primary = None, backup = None\<rparr>"]
  note inv = t [THEN conjunct2, THEN conjunct2, THEN conjunct2, THEN conjunct2, THEN conjunct2,
      THEN conjunct2, THEN conjunct1, THEN mp, OF u]
  have dup: "data ?mem \<in> set (map item_data (old_items ?ltm (category ?mem)))"
    by (simp add: old_items_def)
  note same = t [THEN conjunct2, THEN conjunct2, THEN conjunct2, THEN conjunct1, THEN mp, OF dup]
  have other: "''B'' \<noteq> category ?mem"
    by simp
  note others = t [THEN conjunct2, THEN conjunct1, THEN spec, THEN mp, OF other]
  have none: "map_of (merge_one ?mem ?ltm) ''B'' = None"
    unfolding others by simp
  have ud: "unique_data (memory_of (attributes ?self))"
    by (simp add: unique_data_DEFAULT)
  note saved = t [THEN conjunct2, THEN conjunct2, THEN conjunct2, THEN conjunct2, THEN conjunct2,
      THEN conjunct2, THEN conjunct2, THEN conjunct1, THEN mp, OF ud]
  from u m inv same none saved show ?thesis by blast
qed

subsection \<open>The count that drives the gain\<close>




subsection \<open>What the operations leave alone\<close>

text \<open>
  Claim C9. Through \<^verbatim>\<open>learn\<close>, \<^verbatim>\<open>recall_memory\<close> and \<^verbatim>\<open>sleep_and_save\<close>, one at a time
  and in any sequence, \<^verbatim>\<open>master_info\<close> stays what it was, the keys of
  \<^verbatim>\<open>long_term_memory\<close> stay, in their order, and the list under each key starts with the
  list that was there: a save only appends, \<^verbatim>\<open>learn\<close> changes the buffer only and
  \<^verbatim>\<open>recall_memory\<close> changes nothing.
\<close>

theorem store_only_appends:
  "master_info (attributes (fst (step c (self, fs)))) = master_info (attributes self)
   \<and> extends (memory_of (attributes self)) (memory_of (attributes (fst (step c (self, fs)))))
   \<and> master_info (attributes (fst (run cs (self, fs)))) = master_info (attributes self)
   \<and> extends (memory_of (attributes self)) (memory_of (attributes (fst (run cs (self, fs)))))
   \<and> prefix (map fst (memory_of (attributes self)))
        (map fst (memory_of (attributes (fst (run cs (self, fs))))))
   \<and> (\<forall>k l. map_of (memory_of (attributes self)) k = Some l \<longrightarrow>
        (\<exists>l'. map_of (memory_of (attributes (fst (run cs (self, fs))))) k = Some (l @ l')))
   \<and> attributes (learn cat knowledge now self) = attributes self
   \<and> step (Recall typed) (self, fs) = (self, fs)"
  using step_frame [of c "(self, fs)"] run_frame [of cs "(self, fs)"]
  by (auto simp: learn_def dest: extends_keys extends_lookup)

theorem store_only_appends_witness:
  "master_info (attributes (fst (run
      [Learn ''ENGINE'' ''Gate resistor 10R'' ''t1'', Recall ''a'', Sleep OpenFails,
       Learn ''B'' ''z'' ''t2'', Sleep NoFault]
      (example_brain, \<lparr>primary = Some (Json (attributes example_brain)), backup = None\<rparr>)))) =
     master_info (attributes example_brain)
   \<and> extends (memory_of (attributes example_brain))
       (memory_of (attributes (fst (run
      [Learn ''ENGINE'' ''Gate resistor 10R'' ''t1'', Recall ''a'', Sleep OpenFails,
       Learn ''B'' ''z'' ''t2'', Sleep NoFault]
      (example_brain, \<lparr>primary = Some (Json (attributes example_brain)), backup = None\<rparr>)))))
   \<and> map fst (memory_of (attributes (fst (run
      [Learn ''ENGINE'' ''Gate resistor 10R'' ''t1'', Recall ''a'', Sleep OpenFails,
       Learn ''B'' ''z'' ''t2'', Sleep NoFault]
      (example_brain, \<lparr>primary = Some (Json (attributes example_brain)), backup = None\<rparr>))))) =
     [''ENGINE'', ''LEGAL'', ''B'']
   \<and> (\<exists>l'. map_of (memory_of (attributes (fst (run
      [Learn ''ENGINE'' ''Gate resistor 10R'' ''t1'', Recall ''a'', Sleep OpenFails,
       Learn ''B'' ''z'' ''t2'', Sleep NoFault]
      (example_brain, \<lparr>primary = Some (Json (attributes example_brain)), backup = None\<rparr>)))))
      ''ENGINE'' =
     Some ([\<lparr>item_category = Some ''ENGINE'', item_data = ''IGBT driver uses TC4420CPA'',
             item_timestamp = ''2026-02-01 10:00:00''\<rparr>] @ l'))"
proof -
  let ?cs = "[Learn ''ENGINE'' ''Gate resistor 10R'' ''t1'', Recall ''a'', Sleep OpenFails,
       Learn ''B'' ''z'' ''t2'', Sleep NoFault]"
  let ?fs = "\<lparr>primary = Some (Json (attributes example_brain)), backup = None\<rparr>"
  note t = store_only_appends [of _ example_brain ?fs ?cs]
  note master = t [THEN conjunct2, THEN conjunct2, THEN conjunct1]
  note ext = t [THEN conjunct2, THEN conjunct2, THEN conjunct2, THEN conjunct1]
  have keys: "map fst (memory_of (attributes (fst (run ?cs (example_brain, ?fs))))) =
      [''ENGINE'', ''LEGAL'', ''B'']"
    by (simp add: learn_def sleep_and_save_def Let_def apply_gain_frame memory_of_update
        merge_one_def memory_of_def example_brain_def)
  have old: "map_of (memory_of (attributes example_brain)) ''ENGINE'' =
      Some [\<lparr>item_category = Some ''ENGINE'', item_data = ''IGBT driver uses TC4420CPA'',
             item_timestamp = ''2026-02-01 10:00:00''\<rparr>]"
    by (simp add: example_brain_def memory_of_def)
  note kept = t [THEN conjunct2, THEN conjunct2, THEN conjunct2, THEN conjunct2, THEN conjunct2,
      THEN conjunct1, THEN spec, THEN spec, THEN mp, OF old]
  from master ext keys kept show ?thesis by blast
qed

subsection \<open>The backup is the previous primary file\<close>



subsection \<open>Recall\<close>



subsection \<open>A blank query\<close>

text \<open>
  Claim C10. When the typed line is empty after lower-casing and stripping, whatever the
  library's functions are, the empty query occurs in every category name, so every item of
  every category is printed by the category rule, in the order of the memory;
  \<open>Nothing found\<close> is printed only when the memory holds no item.
\<close>

theorem blank_query_reports_everything:
  assumes "strip (lower typed) = []"
  shows "fst (recall_memory lower strip typed self) =
      concat (map (\<lambda>p. map (CategoryHit (fst p)) (snd p)) (memory_of (attributes self)))
    \<and> map reported (fst (recall_memory lower strip typed self)) =
        all_items (memory_of (attributes self))
    \<and> snd (recall_memory lower strip typed self) =
        (all_items (memory_of (attributes self)) = [])"
proof -
  have hits: "fst (recall_memory lower strip typed self) =
      concat (map (\<lambda>p. map (CategoryHit (fst p)) (snd p)) (memory_of (attributes self)))"
    using assms by (simp add: recall_memory_eq expected_hits_blank)
  then have rep: "map reported (fst (recall_memory lower strip typed self)) =
      all_items (memory_of (attributes self))"
    by (simp add: reported_category_hits)
  have miss: "snd (recall_memory lower strip typed self) =
      (fst (recall_memory lower strip typed self) = [])"
    by (simp add: recall_memory_eq)
  have none: "snd (recall_memory lower strip typed self) =
      (all_items (memory_of (attributes self)) = [])"
    by (simp only: rep [symmetric] map_is_Nil_conv miss)
  show ?thesis
    by (intro conjI) (rule hits, rule rep, rule none)
qed

theorem blank_query_reports_everything_witness:
  "ascii_strip (ascii_lower ''  '') = []
   \<and> fst (recall_memory ascii_lower ascii_strip ''  '' example_brain) =
      [CategoryHit ''ENGINE'' \<lparr>item_category = Some ''ENGINE'',
         item_data = ''IGBT driver uses TC4420CPA'',
         item_timestamp = ''2026-02-01 10:00:00''\<rparr>,
       CategoryHit ''LEGAL'' \<lparr>item_category = Some ''LEGAL'',
         item_data = ''Case filed 2024'',
         item_timestamp = ''2026-02-01 10:05:00''\<rparr>]"
proof -
  have h: "ascii_strip (ascii_lower ''  '') = []"
    by code_simp
  note t = blank_query_reports_everything [of ascii_strip ascii_lower, OF h, of example_brain]
  have ev: "concat (map (\<lambda>p. map (CategoryHit (fst p)) (snd p))
      (memory_of (attributes example_brain))) =
      [CategoryHit ''ENGINE'' \<lparr>item_category = Some ''ENGINE'',
         item_data = ''IGBT driver uses TC4420CPA'',
         item_timestamp = ''2026-02-01 10:00:00''\<rparr>,
       CategoryHit ''LEGAL'' \<lparr>item_category = Some ''LEGAL'',
         item_data = ''Case filed 2024'',
         item_timestamp = ''2026-02-01 10:05:00''\<rparr>]"
    by (simp add: example_brain_def memory_of_def)
  from h trans [OF t [THEN conjunct1] ev] show ?thesis by blast
qed

end
